theory Spec2Isabelle
  imports Complex_Main
begin

section \<open>JavaScript values used by the sources\<close>

text \<open>
  A header or environment value is a string or \<open>undefined\<close>; it is modelled as
  \<open>string option\<close>. JavaScript's \<open>!v\<close> on such a value holds for \<open>undefined\<close> and for
  the empty string.
\<close>

definition falsy :: "string option \<Rightarrow> bool" where
  "falsy v = (case v of None \<Rightarrow> True | Some s \<Rightarrow> s = [])"

definition startsWith :: "string \<Rightarrow> string \<Rightarrow> bool" where
  "startsWith s p = (take (length p) s = p)"

definition toLowerCase :: "char \<Rightarrow> char" where
  "toLowerCase c =
     (case map_of (zip ''ABCDEFGHIJKLMNOPQRSTUVWXYZ'' ''abcdefghijklmnopqrstuvwxyz'') c of
        Some d \<Rightarrow> d
      | None \<Rightarrow> c)"

datatype json = JStr string | JNum real | JObj "(string \<times> json) list"


section \<open>The route guard (src/components/ProtectedRoute.jsx)\<close>

text \<open>
  \<open>useAuth()\<close> yields \<open>{ user, loading }\<close>: \<open>user\<close> is the authenticated-user object or
  \<open>null\<close> (an object is truthy, \<open>null\<close> is not), \<open>loading\<close> a flag. The component returns
  one of three elements: the spinner \<open>div\<close>, its \<open>children\<close>, or
  \<open><Navigate to="/login" state={{ from: location }} replace />\<close>.
\<close>

record 'u auth =
  user :: "'u option"
  loading :: bool

record 'l nav_state =
  state_from :: 'l

datatype ('c, 'l) element =
    is_Spinner: Spinner
  | is_Children: Children 'c
  | is_Navigate: Navigate (nav_to: string) (nav_state: "'l nav_state") (nav_replace: bool)

definition ProtectedRoute :: "'u auth \<Rightarrow> 'l \<Rightarrow> 'c \<Rightarrow> ('c, 'l) element" where
  "ProtectedRoute a location children =
     (if loading a then Spinner
      else (case user a of
              Some u \<Rightarrow> Children children
            | None \<Rightarrow> Navigate ''/login'' \<lparr>state_from = location\<rparr> True))"

section \<open>The gateway (backend/app.js)\<close>

subsection \<open>Required environment variables (lines 22-28)\<close>

type_synonym process_env = "string \<rightharpoonup> string"


text \<open>
  The top-level script runs in a process whose observable state is what it wrote to the
  console, its exit status once \<open>process.exit\<close> has been called, and the layers wired
  into the application so far. \<open>process.exit\<close> ends the script: no later step runs.
\<close>

datatype layer =
    L_cors | L_options | L_helmet | L_mongoSanitize | L_xss | L_hpp
  | L_limiter | L_json | L_urlencoded | L_cookieParser
  | L_morgan | L_devlog
  | L_static_client
  | L_router string
  | L_health | L_data
  | L_catchall
  | L_static_cdclient | L_catchall2
  | L_nostore
  | L_api404
  | L_error






subsection \<open>The CORS origin callback (lines 31-47)\<close>

definition allowedOrigins :: "string list" where
  "allowedOrigins =
     [''https://cdclient-6.onrender.com'',
      ''https://cdclient.vercel.app'',
      ''https://jemila2.github.io'',
      ''http://localhost:5173'',
      ''http://localhost:3001'']"

text \<open>
  An \<open>Error\<close> object as the error handler reads it: whether it is a \<open>SyntaxError\<close>, its
  \<open>status\<close> (a number, a string or undefined), its \<open>statusCode\<close>, its \<open>message\<close>, and
  whether it has a \<open>body\<close> property.
\<close>

record js_error =
  is_SyntaxError :: bool
  err_status :: "json option"
  err_statusCode :: "nat option"
  err_message :: string
  err_has_body :: bool

definition new_Error :: "string \<Rightarrow> js_error" where
  "new_Error msg =
     \<lparr>is_SyntaxError = False, err_status = None, err_statusCode = None,
      err_message = msg, err_has_body = False\<rparr>"

text \<open>
  \<open>origin(origin, callback)\<close>: the result is the callback's arguments,
  \<open>Inr True\<close> for \<open>callback(null, true)\<close> and \<open>Inl e\<close> for \<open>callback(e)\<close>.
\<close>

definition corsOptions_origin :: "string option \<Rightarrow> js_error + bool" where
  "corsOptions_origin origin =
     (if falsy origin \<or> (case origin of Some s \<Rightarrow> s \<in> set allowedOrigins | None \<Rightarrow> False)
      then Inr True
      else Inl (new_Error ''Not allowed by CORS''))"

subsection \<open>Requests, responses and the per-request exchange\<close>

datatype http_method = GET | HEAD | POST | PUT | PATCH | DELETE | OPTIONS

text \<open>
  What \<open>express.json\<close> is handed: \<open>JsonBody buf\<close> for a request that has a body of a
  JSON content type (\<open>buf\<close> is the raw text given to \<open>verify\<close>), \<open>NoJsonBody\<close> for a
  request the parser skips. Bodies over the 10mb limit of the two body parsers are not
  modelled.
\<close>

datatype body = NoJsonBody | JsonBody string

record request =
  req_method :: http_method
  originalUrl :: string
  origin_header :: "string option"
  req_body :: body
  ip :: string

text \<open>
  A response is its status code and what was written: a JSON document (\<open>res.json\<close>), a
  file (\<open>res.sendFile\<close>, \<open>express.static\<close>), a text (\<open>res.send\<close>), nothing (\<open>res.end()\<close>),
  or the framework's own page when no layer answers. Response headers are not modelled.
\<close>

datatype content = Json json | File string | Text string | Empty | Default_page

record response =
  status :: nat
  content :: content

datatype router_result = Responds response | Falls_through | Raises js_error

text \<open>
  Everything the handlers read from outside the request. The routers under
  \<open>./routes\<close> are modules of their own: each is a parameter, keyed by its mount path,
  that answers, falls through (\<open>next()\<close>) or raises. \<open>JSON_parse_ok buf\<close>
  says that \<open>JSON.parse(buf)\<close> returns, \<open>JSON_parse_message buf\<close> is the message of the
  \<open>SyntaxError\<close> the parser raises for \<open>buf\<close>, \<open>stack_of e\<close> the stack trace of an
  error, \<open>dirname\<close> the script's directory. \<open>client_build\<close> and \<open>cdclient_build\<close> give
  what \<open>express.static\<close> answers for a request path from the directory of that name,
  \<open>index_html\<close> the content of \<open>cdclient/build/index.html\<close> when that file exists,
  \<open>build_exists\<close> the value of \<open>fs.existsSync(buildPath)\<close>.
\<close>

record world =
  process_env :: process_env
  dirname :: string
  build_exists :: bool
  client_build :: "string \<Rightarrow> response option"
  cdclient_build :: "string \<Rightarrow> response option"
  index_html :: "string option"
  readyState :: int
  uptime :: real
  now_ISO :: string
  routers :: "string \<Rightarrow> request \<Rightarrow> router_result"
  JSON_parse_ok :: "string \<Rightarrow> bool"
  JSON_parse_message :: "string \<Rightarrow> string"
  stack_of :: "js_error \<Rightarrow> string"

definition development :: "world \<Rightarrow> bool" where
  "development w = (process_env w ''NODE_ENV'' = Some ''development'')"

text \<open>
  The state of one request on its way through the layers: the response written so far
  (the first write is the one the client gets; a second write throws), whether a layer
  has ended the chain by not calling \<open>next\<close>, the error passed to \<open>next(err)\<close> or thrown,
  the route-table layers that were invoked, and the rate limiter's store.
\<close>

record exchange =
  sent :: "response option"
  halted :: bool
  pending :: "js_error option"
  invoked :: "layer list"
  hits :: "(string \<times> nat) list"

definition ERR_HTTP_HEADERS_SENT :: js_error where
  "ERR_HTTP_HEADERS_SENT = new_Error ''Cannot set headers after they are sent to the client''"

text \<open>\<open>res.status(code).json(..)\<close>, \<open>res.send\<close>, \<open>res.end\<close> as a handler's last action.\<close>

definition respond :: "nat \<Rightarrow> content \<Rightarrow> exchange \<Rightarrow> exchange" where
  "respond code c x =
     (case sent x of
        None \<Rightarrow> x\<lparr>sent := Some \<lparr>status = code, content = c\<rparr>, halted := True\<rparr>
      | Some r \<Rightarrow> x\<lparr>pending := Some ERR_HTTP_HEADERS_SENT\<rparr>)"

definition next_err :: "js_error \<Rightarrow> exchange \<Rightarrow> exchange" where
  "next_err e x = x\<lparr>pending := Some e\<rparr>"

definition pathname :: "string \<Rightarrow> string" where
  "pathname url = takeWhile (\<lambda>c. c \<noteq> CHR ''?'') url"

text \<open>
  Route matching as Express does it by default (case-insensitive, non-strict):
  \<open>app.use(prefix, ..)\<close> matches the prefix at a segment boundary, a route path matches
  with or without a trailing slash, \<open>/api/*\<close> matches everything after \<open>/api/\<close>.
\<close>

definition use_matches :: "string \<Rightarrow> string \<Rightarrow> bool" where
  "use_matches prefix url =
     (let p = map toLowerCase (pathname url) in p = prefix \<or> startsWith p (prefix @ ''/''))"

definition route_matches :: "string \<Rightarrow> string \<Rightarrow> bool" where
  "route_matches route url =
     (let p = map toLowerCase (pathname url) in p = route \<or> p = route @ ''/'')"

definition is_get :: "http_method \<Rightarrow> bool" where
  "is_get m = (m = GET \<or> m = HEAD)"

subsection \<open>The layers\<close>

text \<open>
  The \<open>cors\<close> package with \<open>corsOptions\<close>: it asks the origin callback; an error goes to
  \<open>next(err)\<close>; otherwise an \<open>OPTIONS\<close> request is answered at once with
  \<open>optionsSuccessStatus\<close> (\<open>preflightContinue\<close> is false) and any other is passed on.
\<close>

definition optionsSuccessStatus :: nat where
  "optionsSuccessStatus = 200"

definition cors :: "request \<Rightarrow> exchange \<Rightarrow> exchange" where
  "cors rq x =
     (case corsOptions_origin (origin_header rq) of
        Inl e \<Rightarrow> next_err e x
      | Inr allowed \<Rightarrow>
          if allowed \<and> req_method rq = OPTIONS then respond optionsSuccessStatus Empty x else x)"

text \<open>
  Modelled from the spec: the \<open>express-rate-limit\<close> package is not among the sources,
  which only pass it \<open>windowMs\<close>, \<open>max\<close> and \<open>message\<close>. The spec describes it as a
  sliding-window counter per client: the store keeps the arrival time of every request
  it saw, keyed by client address; a request is over quota when the client already made
  \<open>max\<close> requests less than \<open>windowMs\<close> ago, and is then answered with the message alone
  (with the package's status 429).
\<close>

definition windowMs :: nat where
  "windowMs = 15 * 60 * 1000"

definition max_requests :: nat where
  "max_requests = 100"

definition limiter_message :: string where
  "limiter_message = ''Too many requests from this IP, please try again later''"

definition window_count :: "(string \<times> nat) list \<Rightarrow> string \<Rightarrow> nat \<Rightarrow> nat" where
  "window_count hs client t = length (filter (\<lambda>(k, s). k = client \<and> t < s + windowMs) hs)"

definition limiter :: "nat \<Rightarrow> request \<Rightarrow> exchange \<Rightarrow> exchange" where
  "limiter t rq x =
     (let n = window_count (hits x) (ip rq) t;
          x' = x\<lparr>hits := (ip rq, t) # hits x\<rparr>
      in if max_requests \<le> n then respond 429 (Text limiter_message) x' else x')"

text \<open>
  \<open>express.json\<close> with the \<open>verify\<close> callback of lines 81-88. The parser calls \<open>verify\<close>
  on the raw body first; what \<open>verify\<close> throws reaches \<open>next\<close> as an error of status 403
  carrying the body. A body that passes is then parsed in strict mode, which refuses a
  text whose first non-blank character is neither a brace nor a bracket with a
  \<open>SyntaxError\<close> of status 400 carrying the body.
\<close>

definition verify :: "world \<Rightarrow> string \<Rightarrow> exchange \<Rightarrow> js_error option \<times> exchange" where
  "verify w buf x =
     (if JSON_parse_ok w buf then (None, x)
      else (case sent x of
              None \<Rightarrow>
                (Some (new_Error ''Invalid JSON''),
                 x\<lparr>sent := Some \<lparr>status = 400,
                                  content = Json (JObj [(''error'', JStr ''Invalid JSON'')])\<rparr>\<rparr>)
            | Some r \<Rightarrow> (Some ERR_HTTP_HEADERS_SENT, x)))"

definition strict_ok :: "string \<Rightarrow> bool" where
  "strict_ok buf =
     (case dropWhile (\<lambda>c. c \<in> set [CHR 0x20, CHR 0x09, CHR 0x0A, CHR 0x0D]) buf of
        [] \<Rightarrow> False
      | c # cs \<Rightarrow> c = CHR ''{'' \<or> c = CHR ''['')"

definition express_json :: "world \<Rightarrow> request \<Rightarrow> exchange \<Rightarrow> exchange" where
  "express_json w rq x =
     (case req_body rq of
        NoJsonBody \<Rightarrow> x
      | JsonBody buf \<Rightarrow>
          (case verify w buf x of
             (Some e, x') \<Rightarrow>
               next_err (e\<lparr>err_status := Some (JNum 403), err_statusCode := Some 403,
                           err_has_body := True\<rparr>) x'
           | (None, x') \<Rightarrow>
               if strict_ok buf then x'
               else next_err \<lparr>is_SyntaxError = True, err_status = Some (JNum 400),
                              err_statusCode = Some 400,
                              err_message = JSON_parse_message w buf,
                              err_has_body = True\<rparr> x'))"

text \<open>
  \<open>express.static(dir)\<close>: for a GET or HEAD it answers when the directory has something
  for the path (the file, or a redirect to a directory), else it passes the request on;
  requests of other methods it passes on.
\<close>

definition express_static :: "(string \<Rightarrow> response option) \<Rightarrow> request \<Rightarrow> exchange \<Rightarrow> exchange" where
  "express_static dir rq x =
     (if is_get (req_method rq)
      then (case dir (pathname (originalUrl rq)) of
              Some r \<Rightarrow> respond (status r) (content r) x
            | None \<Rightarrow> x)
      else x)"

text \<open>\<open>res.sendFile(path)\<close>: the file with status 200, or \<open>next(err)\<close> with a 404 error.\<close>

definition sendFile :: "string \<Rightarrow> string option \<Rightarrow> exchange \<Rightarrow> exchange" where
  "sendFile path file x =
     (case file of
        Some doc \<Rightarrow> respond 200 (File doc) x
      | None \<Rightarrow>
          next_err \<lparr>is_SyntaxError = False, err_status = Some (JNum 404),
                    err_statusCode = Some 404,
                    err_message = ''ENOENT: no such file or directory, stat '' @
                                  [CHR 0x27] @ path @ [CHR 0x27],
                    err_has_body = False\<rparr> x)"

definition buildPath :: "world \<Rightarrow> string" where
  "buildPath w = dirname w @ ''/cdclient/build''"

text \<open>The health endpoint (lines 141-156) and the test endpoint (lines 159-161).\<close>

definition statusMap :: "int \<rightharpoonup> string" where
  "statusMap = [0 \<mapsto> ''Disconnected'', 1 \<mapsto> ''Connected'', 2 \<mapsto> ''Connecting'',
                3 \<mapsto> ''Disconnecting'']"

definition health_body :: "world \<Rightarrow> json" where
  "health_body w =
     JObj [(''status'', JStr ''OK''),
           (''database'',
            JStr (if falsy (statusMap (readyState w)) then ''Unknown''
                  else the (statusMap (readyState w)))),
           (''timestamp'', JStr (now_ISO w)),
           (''uptime'', JNum (uptime w))]"

definition health :: "world \<Rightarrow> exchange \<Rightarrow> exchange" where
  "health w x = respond 200 (Json (health_body w)) x"

definition data :: "exchange \<Rightarrow> exchange" where
  "data x = respond 200 (Json (JObj [(''message'', JStr ''API response'')])) x"

text \<open>The catch-all of lines 164-173 and the 404 handler of lines 205-210.\<close>

definition fail_envelope :: "string \<Rightarrow> json" where
  "fail_envelope msg = JObj [(''status'', JStr ''fail''), (''message'', JStr msg)]"

definition catchall :: "world \<Rightarrow> request \<Rightarrow> exchange \<Rightarrow> exchange" where
  "catchall w rq x =
     (if startsWith (originalUrl rq) ''/api/''
      then respond 404
             (Json (fail_envelope (''API endpoint '' @ originalUrl rq @ '' not found''))) x
      else sendFile (dirname w @ ''/cdclient/build/index.html'') (index_html w) x)"

definition catchall2 :: "world \<Rightarrow> exchange \<Rightarrow> exchange" where
  "catchall2 w x = sendFile (buildPath w @ ''/index.html'') (index_html w) x"

definition api404 :: "request \<Rightarrow> exchange \<Rightarrow> exchange" where
  "api404 rq x =
     respond 404
       (Json (fail_envelope (''API endpoint '' @ originalUrl rq @ '' not found!''))) x"

text \<open>The error-handling middleware (lines 213-231).\<close>

fun js_falsy :: "json \<Rightarrow> bool" where
  "js_falsy (JStr s) = (s = [])"
| "js_falsy (JNum n) = (n = 0)"
| "js_falsy (JObj kvs) = False"

definition errorHandler :: "world \<Rightarrow> js_error \<Rightarrow> exchange \<Rightarrow> exchange" where
  "errorHandler w err x =
     (if is_SyntaxError err \<and> err_status err = Some (JNum 400) \<and> err_has_body err
      then respond 400 (Json (JObj [(''error'', JStr ''Invalid JSON body'')])) x
      else
        (let statusCode = (case err_statusCode err of
                             None \<Rightarrow> 500
                           | Some n \<Rightarrow> if n = 0 then 500 else n);
             st = (case err_status err of
                     None \<Rightarrow> JStr ''error''
                   | Some v \<Rightarrow> if js_falsy v then JStr ''error'' else v)
         in respond statusCode
              (Json (JObj ([(''status'', st), (''message'', JStr (err_message err))] @
                           (if development w then [(''stack'', JStr (stack_of w err))] else []))))
              x))"

subsection \<open>The application: the layers in the order the script wires them\<close>

definition mounts :: "string list" where
  "mounts =
     [''/api/auth'', ''/api/employee-requests'', ''/api/users'', ''/api/tasks'',
      ''/api/employees'', ''/api/payments'', ''/api/orders'', ''/api/admin'',
      ''/api/employee-orders'', ''/api/suppliers'', ''/api/purchase-orders'',
      ''/api/payroll'', ''/api/customers'', ''/api/invoices'']"

definition wire :: "world \<Rightarrow> layer list" where
  "wire w =
     [L_cors, L_options, L_helmet, L_mongoSanitize, L_xss, L_hpp, L_limiter,
      L_json, L_urlencoded, L_cookieParser] @
     (if development w then [L_morgan, L_devlog] else []) @
     [L_static_client] @
     map L_router mounts @
     [L_health, L_data, L_catchall] @
     (if build_exists w then [L_static_cdclient, L_catchall2] else []) @
     (if development w then [L_nostore] else []) @
     [L_api404, L_error]"

text \<open>Which requests a layer is invoked for when no error is pending.\<close>

fun applies :: "layer \<Rightarrow> request \<Rightarrow> bool" where
  "applies L_options rq = (req_method rq = OPTIONS)"
| "applies L_limiter rq = use_matches ''/api'' (originalUrl rq)"
| "applies (L_router prefix) rq = use_matches prefix (originalUrl rq)"
| "applies L_health rq = (is_get (req_method rq) \<and> route_matches ''/api/health'' (originalUrl rq))"
| "applies L_data rq = (is_get (req_method rq) \<and> route_matches ''/api/data'' (originalUrl rq))"
| "applies L_catchall rq = is_get (req_method rq)"
| "applies L_catchall2 rq = is_get (req_method rq)"
| "applies L_api404 rq = startsWith (map toLowerCase (pathname (originalUrl rq))) ''/api/''"
| "applies L_error rq = False"
| "applies l rq = True"

fun is_route :: "layer \<Rightarrow> bool" where
  "is_route (L_router prefix) = True"
| "is_route L_health = True"
| "is_route L_data = True"
| "is_route L_catchall = True"
| "is_route L_catchall2 = True"
| "is_route L_api404 = True"
| "is_route l = False"

text \<open>
  What a layer does with a request at time \<open>t\<close>. \<open>helmet\<close>, \<open>mongoSanitize\<close>, \<open>xss\<close>,
  \<open>hpp\<close>, \<open>urlencoded\<close>, \<open>cookieParser\<close>, \<open>morgan\<close>, the development logger and the
  \<open>Cache-Control\<close> setter only rewrite headers and request fields or log, and call
  \<open>next()\<close>; what they rewrite is read by the routers alone, which are parameters.
\<close>

fun act :: "world \<Rightarrow> nat \<Rightarrow> request \<Rightarrow> layer \<Rightarrow> exchange \<Rightarrow> exchange" where
  "act w t rq L_cors x = cors rq x"
| "act w t rq L_options x = cors rq x"
| "act w t rq L_limiter x = limiter t rq x"
| "act w t rq L_json x = express_json w rq x"
| "act w t rq L_static_client x = express_static (client_build w) rq x"
| "act w t rq (L_router prefix) x =
     (case routers w prefix rq of
        Responds r \<Rightarrow> respond (status r) (content r) x
      | Falls_through \<Rightarrow> x
      | Raises e \<Rightarrow> next_err e x)"
| "act w t rq L_health x = health w x"
| "act w t rq L_data x = data x"
| "act w t rq L_catchall x = catchall w rq x"
| "act w t rq L_static_cdclient x = express_static (cdclient_build w) rq x"
| "act w t rq L_catchall2 x = catchall2 w x"
| "act w t rq L_api404 x = api404 rq x"
| "act w t rq l x = x"

text \<open>
  One layer of the stack: nothing once the chain has ended; with an error pending only
  the error handler runs; otherwise the layer runs if it applies to the request.
\<close>

definition step :: "world \<Rightarrow> nat \<Rightarrow> request \<Rightarrow> exchange \<Rightarrow> layer \<Rightarrow> exchange" where
  "step w t rq x l =
     (if halted x then x
      else (case pending x of
              Some e \<Rightarrow> if l = L_error then errorHandler w e (x\<lparr>pending := None\<rparr>) else x
            | None \<Rightarrow>
                if applies l rq
                then act w t rq l (if is_route l then x\<lparr>invoked := invoked x @ [l]\<rparr> else x)
                else x))"

definition run :: "world \<Rightarrow> nat \<Rightarrow> request \<Rightarrow> layer list \<Rightarrow> exchange \<Rightarrow> exchange" where
  "run w t rq ls x = foldl (step w t rq) x ls"

text \<open>
  What Express does when the stack is exhausted: its own 404 page when nothing is
  pending, its own error page for a pending error; when a response has already been
  written the connection is closed and the client keeps what was written.
\<close>

definition final_status :: "js_error \<Rightarrow> nat" where
  "final_status e =
     (let by_statusCode = (case err_statusCode e of
                             Some n \<Rightarrow> if 400 \<le> n \<and> n < 600 then n else 500
                           | None \<Rightarrow> 500)
      in (case err_status e of
            Some (JNum r) \<Rightarrow> if 400 \<le> r \<and> r < 600 then nat \<lfloor>r\<rfloor> else by_statusCode
          | Some v \<Rightarrow> by_statusCode
          | None \<Rightarrow> by_statusCode))"

definition finalhandler :: "exchange \<Rightarrow> exchange" where
  "finalhandler x =
     (if halted x \<or> sent x \<noteq> None then x
      else (case pending x of
              None \<Rightarrow> respond 404 Default_page x
            | Some e \<Rightarrow> respond (final_status e) Default_page x))"

definition fresh :: "(string \<times> nat) list \<Rightarrow> exchange" where
  "fresh hs = \<lparr>sent = None, halted = False, pending = None, invoked = [], hits = hs\<rparr>"

definition handle :: "world \<Rightarrow> (string \<times> nat) list \<Rightarrow> nat \<Rightarrow> request \<Rightarrow> exchange" where
  "handle w hs t rq = finalhandler (run w t rq (wire w) (fresh hs))"


subsection \<open>Segments of the stack and what it means to reach one\<close>

definition gate_layers :: "layer list" where
  "gate_layers = [L_cors, L_options, L_helmet, L_mongoSanitize, L_xss, L_hpp, L_limiter]"

definition parser_layers :: "world \<Rightarrow> layer list" where
  "parser_layers w =
     [L_json, L_urlencoded, L_cookieParser] @
     (if development w then [L_morgan, L_devlog] else [])"

definition route_layers :: "layer list" where
  "route_layers = map L_router mounts @ [L_health, L_data]"

definition fallback_layers :: "world \<Rightarrow> layer list" where
  "fallback_layers w =
     [L_catchall] @
     (if build_exists w then [L_static_cdclient, L_catchall2] else []) @
     (if development w then [L_nostore] else []) @
     [L_api404, L_error]"



text \<open>The layers ahead of the routers, and the layers ahead of the fallbacks.\<close>

definition pre_route_layers :: "world \<Rightarrow> layer list" where
  "pre_route_layers w = gate_layers @ parser_layers w @ [L_static_client]"

definition upstream_layers :: "world \<Rightarrow> layer list" where
  "upstream_layers w = pre_route_layers w @ route_layers"

definition tail_layers :: "world \<Rightarrow> layer list" where
  "tail_layers w = (if development w then [L_nostore] else []) @ [L_api404, L_error]"



text \<open>An exchange is dead when a layer has ended the chain or an error is pending.\<close>

definition dead :: "exchange \<Rightarrow> bool" where
  "dead x = (halted x \<or> pending x \<noteq> None)"



subsection \<open>Process events (lines 250-272)\<close>

text \<open>
  \<open>server.close(cb)\<close> stops the server from accepting connections and calls \<open>cb\<close> once
  the open connections have ended. The three handlers differ in what they log and in
  the callback they pass.
\<close>

datatype event = UnhandledRejection string string | UncaughtException string string | SIGTERM

datatype callback = Exit_1 | Log_terminated

record server_process =
  srv_console :: "string list"
  listening :: bool
  connections :: nat
  on_close :: "callback list"
  exited :: "int option"

definition server_close :: "callback \<Rightarrow> server_process \<Rightarrow> server_process" where
  "server_close cb p = p\<lparr>listening := False, on_close := on_close p @ [cb]\<rparr>"

definition srv_log :: "string \<Rightarrow> server_process \<Rightarrow> server_process" where
  "srv_log msg p = p\<lparr>srv_console := srv_console p @ [msg]\<rparr>"

fun on_event :: "event \<Rightarrow> server_process \<Rightarrow> server_process" where
  "on_event (UnhandledRejection name msg) p =
     (if exited p \<noteq> None then p
      else server_close Exit_1
             (srv_log (name @ '' '' @ msg)
               (srv_log ''UNHANDLED REJECTION!  Shutting down...'' p)))"
| "on_event (UncaughtException name msg) p =
     (if exited p \<noteq> None then p
      else server_close Exit_1
             (srv_log (name @ '' '' @ msg)
               (srv_log ''UNCAUGHT EXCEPTION!  Shutting down...'' p)))"
| "on_event SIGTERM p =
     (if exited p \<noteq> None then p
      else server_close Log_terminated
             (srv_log '' SIGTERM RECEIVED. Shutting down gracefully'' p))"

fun call :: "callback \<Rightarrow> server_process \<Rightarrow> server_process" where
  "call Exit_1 p = (if exited p = None then p\<lparr>exited := Some 1\<rparr> else p)"
| "call Log_terminated p = (if exited p = None then srv_log '' Process terminated!'' p else p)"

text \<open>A new connection is taken only while the server listens.\<close>

definition connect :: "server_process \<Rightarrow> server_process" where
  "connect p =
     (if listening p \<and> exited p = None then p\<lparr>connections := connections p + 1\<rparr> else p)"

text \<open>
  The open connections end; a server that was closed then calls the callbacks it was
  given, in order.
\<close>

definition drain :: "server_process \<Rightarrow> server_process" where
  "drain p =
     (if exited p \<noteq> None then p
      else if listening p then p\<lparr>connections := 0\<rparr>
      else fold call (on_close p) (p\<lparr>connections := 0, on_close := []\<rparr>))"

subsection \<open>Concrete inputs\<close>

text \<open>
  A deployment with both variables set, the bundle present, no static file shadowing a
  route, routers that fall through, and a \<open>JSON.parse\<close> represented on the texts the
  examples use.
\<close>

definition example_world :: world where
  "example_world =
     \<lparr>process_env = [''JWT_SECRET'' \<mapsto> ''s3cr3t'',
                     ''MONGODB_URI'' \<mapsto> ''mongodb://db.internal/cd''],
      dirname = ''/srv/backend'',
      build_exists = True,
      client_build = (\<lambda>p. None),
      cdclient_build = (\<lambda>p. None),
      index_html = Some ''<!doctype html>'',
      readyState = 1,
      uptime = 42,
      now_ISO = ''2025-01-01T00:00:00.000Z'',
      routers = (\<lambda>prefix rq. Falls_through),
      JSON_parse_ok = (\<lambda>buf. buf = ''{}''),
      JSON_parse_message = (\<lambda>buf. ''Unexpected token in JSON at position 0''),
      stack_of = (\<lambda>e. ''Error: '' @ err_message e)\<rparr>"

definition example_request :: "http_method \<Rightarrow> string \<Rightarrow> request" where
  "example_request m url =
     \<lparr>req_method = m, originalUrl = url, origin_header = None, req_body = NoJsonBody,
      ip = ''203.0.113.9''\<rparr>"

definition running_server :: server_process where
  "running_server =
     \<lparr>srv_console = [], listening = True, connections = 2, on_close = [], exited = None\<rparr>"

section \<open>Properties of the layer stack\<close>

subsection \<open>Running a list of layers\<close>

lemma run_Nil: "run w t rq [] x = x"
  by (simp add: run_def)

lemma run_Cons: "run w t rq (l # ls) x = run w t rq ls (step w t rq x l)"
  by (simp add: run_def)

lemma run_append: "run w t rq (as @ bs) x = run w t rq bs (run w t rq as x)"
  by (simp add: run_def)

lemma step_halted: "halted x \<Longrightarrow> step w t rq x l = x"
  by (simp add: step_def)


lemma step_pending_skip: "pending x = Some e \<Longrightarrow> l \<noteq> L_error \<Longrightarrow> step w t rq x l = x"
  by (simp add: step_def)

lemma run_pending_skip: "pending x = Some e \<Longrightarrow> L_error \<notin> set ls \<Longrightarrow> run w t rq ls x = x"
  by (induction ls) (auto simp: step_pending_skip run_Nil run_Cons)

lemma run_error_to_handler:
  assumes "pending x = Some e" and "\<not> halted x" and "L_error \<notin> set ls"
  shows "run w t rq (ls @ [L_error]) x = errorHandler w e (x\<lparr>pending := None\<rparr>)"
proof -
  have "run w t rq (ls @ [L_error]) x = step w t rq x L_error"
    using assms by (simp add: run_append run_pending_skip run_Nil run_Cons)
  then show ?thesis using assms by (simp add: step_def)
qed

subsection \<open>The shape of the stack\<close>

lemma wire_split:
  "wire w = gate_layers @ parser_layers w @ [L_static_client] @ route_layers @ fallback_layers w"
  by (simp add: wire_def gate_layers_def parser_layers_def route_layers_def fallback_layers_def)

lemma wire_error_last:
  "\<exists>ls. wire w = L_cors # ls @ [L_error] \<and> L_error \<notin> set ls"
proof -
  let ?ls = "[L_options, L_helmet, L_mongoSanitize, L_xss, L_hpp, L_limiter,
      L_json, L_urlencoded, L_cookieParser] @
     (if development w then [L_morgan, L_devlog] else []) @
     [L_static_client] @
     map L_router mounts @
     [L_health, L_data, L_catchall] @
     (if build_exists w then [L_static_cdclient, L_catchall2] else []) @
     (if development w then [L_nostore] else []) @
     [L_api404]"
  have "wire w = L_cors # ?ls @ [L_error]" by (simp add: wire_def)
  moreover have "L_error \<notin> set ?ls" by auto
  ultimately show ?thesis by blast
qed

subsection \<open>A rejected origin\<close>

text \<open>
  The error of the origin callback skips every layer up to the error handler.
\<close>

lemma cors_rejected_handle:
  assumes "corsOptions_origin (origin_header rq) \<noteq> Inr True"
  shows "handle w hs t rq =
           (fresh hs)\<lparr>sent := Some \<lparr>status = 500,
              content = Json (JObj ([(''status'', JStr ''error''),
                                     (''message'', JStr ''Not allowed by CORS'')] @
                           (if development w then
                              [(''stack'', JStr (stack_of w (new_Error ''Not allowed by CORS'')))]
                            else [])))\<rparr>,
             halted := True\<rparr>"
proof -
  obtain ls where ls: "wire w = L_cors # ls @ [L_error]" "L_error \<notin> set ls"
    using wire_error_last by blast
  have rej: "corsOptions_origin (origin_header rq) = Inl (new_Error ''Not allowed by CORS'')"
    using assms by (auto simp: corsOptions_origin_def)
  let ?x = "(fresh hs)\<lparr>pending := Some (new_Error ''Not allowed by CORS'')\<rparr>"
  have s1: "step w t rq (fresh hs) L_cors = ?x"
    by (simp add: step_def fresh_def cors_def rej next_err_def)
  have "run w t rq (wire w) (fresh hs) = run w t rq (ls @ [L_error]) ?x"
    by (simp add: ls s1 run_Cons)
  also have "\<dots> = errorHandler w (new_Error ''Not allowed by CORS'') (?x\<lparr>pending := None\<rparr>)"
    by (rule run_error_to_handler) (simp_all add: ls fresh_def)
  finally show ?thesis
    by (simp add: handle_def errorHandler_def new_Error_def respond_def fresh_def
        finalhandler_def)
qed

subsection \<open>The layers ahead of the body parser\<close>








subsection \<open>Once a layer has answered or raised, no route runs\<close>






subsection \<open>The first response written is the one that stays\<close>








subsection \<open>Layers that are not routes leave the trace alone\<close>



subsection \<open>A body that does not parse\<close>









subsection \<open>Routers, endpoints and fallbacks\<close>


lemma handle_unmatched_split:
  "handle w hs t rq =
     finalhandler (run w t rq (fallback_layers w)
       (run w t rq (upstream_layers w)
          (fresh hs)))"
  unfolding handle_def wire_split upstream_layers_def pre_route_layers_def
  by (simp only: run_append append_assoc)

lemma step_not_applies: "\<not> applies l rq \<Longrightarrow> l \<noteq> L_error \<Longrightarrow> step w t rq x l = x"
  by (simp add: step_def split: option.splits)








subsection \<open>The bundle\<close>

lemma catchall_dead: "is_get (req_method rq) \<Longrightarrow> dead (step w t rq z L_catchall)"
  by (auto simp: step_def dead_def catchall_def sendFile_def respond_def next_err_def
      split: option.splits)

lemma dead_skip: "dead y \<Longrightarrow> l \<noteq> L_error \<Longrightarrow> step w t rq y l = y"
  by (auto simp: dead_def step_halted step_pending_skip)

lemma cdclient_noop:
  assumes "dead y \<or> \<not> is_get (req_method rq)"
  shows "run w' t rq [L_static_cdclient, L_catchall2] y = y"
proof (cases "dead y")
  case True
  then show ?thesis by (simp add: run_Cons run_Nil dead_skip)
next
  case False
  then have ng: "\<not> is_get (req_method rq)" using assms by simp
  have "step w' t rq y L_static_cdclient = y"
    using ng by (simp add: step_def express_static_def split: option.splits)
  moreover have "step w' t rq y L_catchall2 = y"
    using ng by (simp add: step_not_applies)
  ultimately show ?thesis by (simp add: run_Cons run_Nil)
qed

lemma handle_canon:
  "handle w hs t rq =
     finalhandler (run w t rq (tail_layers w)
       (step w t rq
          (run w t rq (upstream_layers w)
             (fresh hs)) L_catchall))"
proof -
  let ?z = "run w t rq (upstream_layers w) (fresh hs)"
  let ?y = "step w t rq ?z L_catchall"
  have d: "dead ?y \<or> \<not> is_get (req_method rq)" using catchall_dead by blast
  have n: "run w t rq (if build_exists w then [L_static_cdclient, L_catchall2] else []) ?y = ?y"
    using cdclient_noop[OF d] by (simp add: run_Nil)
  have "fallback_layers w = [L_catchall] @
      (if build_exists w then [L_static_cdclient, L_catchall2] else []) @ tail_layers w"
    by (simp add: fallback_layers_def tail_layers_def)
  then have "run w t rq (fallback_layers w) ?z =
      run w t rq (tail_layers w)
        (run w t rq (if build_exists w then [L_static_cdclient, L_catchall2] else []) ?y)"
    by (simp only: run_append run_Cons run_Nil)
  then show ?thesis by (simp only: handle_unmatched_split n)
qed

lemma verify_indep:
  "verify (w\<lparr>build_exists := b, cdclient_build := f, index_html := d\<rparr>) buf x = verify w buf x"
  by (simp add: verify_def)

lemma express_json_indep:
  "express_json (w\<lparr>build_exists := b, cdclient_build := f, index_html := d\<rparr>) rq x =
   express_json w rq x"
  by (simp add: express_json_def verify_indep split: body.splits prod.splits option.splits)

lemma errorHandler_indep:
  "errorHandler (w\<lparr>build_exists := b, cdclient_build := f, index_html := d\<rparr>) e x =
   errorHandler w e x"
  by (simp add: errorHandler_def development_def)

lemma health_indep:
  "health (w\<lparr>build_exists := b, cdclient_build := f, index_html := d\<rparr>) x = health w x"
  by (simp add: health_def health_body_def)

lemma catchall_indep:
  "startsWith (originalUrl rq) ''/api/'' \<or> d = index_html w \<Longrightarrow>
   catchall (w\<lparr>build_exists := b, cdclient_build := f, index_html := d\<rparr>) rq x =
   catchall w rq x"
  by (auto simp: catchall_def)

lemma act_indep:
  assumes "l \<noteq> L_static_cdclient" and "l \<noteq> L_catchall2"
    and "l = L_catchall \<longrightarrow> startsWith (originalUrl rq) ''/api/'' \<or> d = index_html w"
  shows "act (w\<lparr>build_exists := b, cdclient_build := f, index_html := d\<rparr>) t rq l x =
         act w t rq l x"
  using assms
  by (cases l) (simp_all add: express_json_indep health_indep catchall_indep)

lemma step_indep:
  assumes "l \<noteq> L_static_cdclient" and "l \<noteq> L_catchall2"
    and "l = L_catchall \<longrightarrow> startsWith (originalUrl rq) ''/api/'' \<or> d = index_html w"
  shows "step (w\<lparr>build_exists := b, cdclient_build := f, index_html := d\<rparr>) t rq x l =
         step w t rq x l"
  unfolding step_def by (simp only: act_indep[OF assms] errorHandler_indep)

lemma run_indep:
  assumes "L_static_cdclient \<notin> set ls" and "L_catchall2 \<notin> set ls" and "L_catchall \<notin> set ls"
  shows "run (w\<lparr>build_exists := b, cdclient_build := f, index_html := d\<rparr>) t rq ls x =
         run w t rq ls x"
  using assms
proof (induction ls arbitrary: x)
  case Nil
  then show ?case by (simp add: run_Nil)
next
  case (Cons l ls)
  then have "step (w\<lparr>build_exists := b, cdclient_build := f, index_html := d\<rparr>) t rq x l =
         step w t rq x l"
    by (intro step_indep) auto
  then show ?case using Cons by (simp add: run_Cons)
qed

lemma bundle_indep:
  assumes "startsWith (originalUrl rq) ''/api/'' \<or> d = index_html w"
  shows "handle (w\<lparr>build_exists := b, cdclient_build := f, index_html := d\<rparr>) hs t rq =
         handle w hs t rq"
proof -
  let ?w = "w\<lparr>build_exists := b, cdclient_build := f, index_html := d\<rparr>"
  have dv: "development ?w = development w" by (simp add: development_def)
  have pl: "upstream_layers ?w = upstream_layers w"
    by (simp add: upstream_layers_def pre_route_layers_def parser_layers_def dv)
  have tl: "tail_layers ?w = tail_layers w" by (simp add: tail_layers_def dv)
  have a: "run ?w t rq (upstream_layers w) (fresh hs)
      = run w t rq (upstream_layers w) (fresh hs)"
    by (rule run_indep)
       (auto simp: upstream_layers_def pre_route_layers_def gate_layers_def parser_layers_def
          route_layers_def)
  have c: "\<And>z. step ?w t rq z L_catchall = step w t rq z L_catchall"
    by (rule step_indep) (simp_all add: assms)
  have t: "\<And>y. run ?w t rq (tail_layers w) y = run w t rq (tail_layers w) y"
    by (rule run_indep) (auto simp: tail_layers_def)
  show ?thesis
    by (simp only: handle_canon[of ?w] handle_canon[of w] pl tl a c t)
qed

text \<open>
  The block guarded by \<open>fs.existsSync(buildPath)\<close> sits behind the catch-all, which
  leaves nothing for it to answer: no response depends on it.
\<close>

lemma build_check_indep:
  "handle (w\<lparr>build_exists := b, cdclient_build := f\<rparr>) hs t rq = handle w hs t rq"
  using bundle_indep[where rq=rq and d="index_html w" and w=w and b=b and f=f and hs=hs and t=t]
  by simp

subsection \<open>The limiter and its store\<close>



















subsection \<open>The origin callback, the startup check and the health body\<close>


lemma corsOptions_origin_accepts:
  "corsOptions_origin origin = Inr True \<longleftrightarrow>
     origin = None \<or> origin = Some [] \<or> (\<exists>s. origin = Some s \<and> s \<in> set allowedOrigins)"
  by (cases origin) (auto simp: corsOptions_origin_def falsy_def)

lemma corsOptions_origin_rejects:
  "corsOptions_origin origin \<noteq> Inr True \<Longrightarrow>
     corsOptions_origin origin = Inl (new_Error ''Not allowed by CORS'')"
  by (auto simp: corsOptions_origin_def)




subsection \<open>The response does not depend on what a layer never reads\<close>








subsection \<open>A missing index document\<close>


subsection \<open>Requests that nothing answers\<close>


subsection \<open>The concrete inputs, evaluated\<close>








section \<open>The claims\<close>

text \<open>
  C1. The route guard is a three-way branch: while \<open>loading\<close> it renders the placeholder
  and neither the children nor a redirect; with \<open>loading\<close> false and no user it renders
  the redirect to \<open>/login\<close> whose state records the attempted location; with
  \<open>loading\<close> false and a user it renders the children and no redirect.
\<close>

theorem ProtectedRoute_three_way:
  "(loading a \<longrightarrow>
      ProtectedRoute a location children = Spinner \<and>
      \<not> is_Children (ProtectedRoute a location children) \<and>
      \<not> is_Navigate (ProtectedRoute a location children)) \<and>
   (\<not> loading a \<and> user a = None \<longrightarrow>
      ProtectedRoute a location children =
        Navigate ''/login'' \<lparr>state_from = location\<rparr> True \<and>
      \<not> is_Children (ProtectedRoute a location children)) \<and>
   (\<not> loading a \<and> user a \<noteq> None \<longrightarrow>
      ProtectedRoute a location children = Children children \<and>
      \<not> is_Navigate (ProtectedRoute a location children))"
  by (auto simp: ProtectedRoute_def)

theorem ProtectedRoute_three_way_witness:
  "ProtectedRoute \<lparr>user = None :: string option, loading = True\<rparr> ''/orders'' ''Orders'' =
     Spinner \<and>
   ProtectedRoute \<lparr>user = None :: string option, loading = False\<rparr> ''/orders'' ''Orders'' =
     Navigate ''/login'' \<lparr>state_from = ''/orders''\<rparr> True \<and>
   ProtectedRoute \<lparr>user = Some ''amina'', loading = False\<rparr> ''/orders'' ''Orders'' =
     Children ''Orders''"
  using ProtectedRoute_three_way
          [of "\<lparr>user = None :: string option, loading = True\<rparr>" "''/orders''" "''Orders''"]
        ProtectedRoute_three_way
          [of "\<lparr>user = None :: string option, loading = False\<rparr>" "''/orders''" "''Orders''"]
        ProtectedRoute_three_way
          [of "\<lparr>user = Some ''amina'', loading = False\<rparr>" "''/orders''" "''Orders''"]
  by simp

text \<open>
  C2, as stated, fails: an \<open>Origin\<close> header that is present but empty is neither absent
  nor one of the five allowed origins, and the callback accepts it, because \<open>!origin\<close>
  holds for the empty string.
\<close>

theorem cors_empty_origin_accepted:
  "origin_header ((example_request GET ''/api/data'')\<lparr>origin_header := Some []\<rparr>) \<noteq> None \<and>
   [] \<notin> set allowedOrigins \<and>
   corsOptions_origin
     (origin_header ((example_request GET ''/api/data'')\<lparr>origin_header := Some []\<rparr>)) =
     Inr True"
  by (simp add: corsOptions_origin_def falsy_def allowedOrigins_def example_request_def)

text \<open>
  C2, amended. The origin callback accepts exactly when the origin is absent, is the
  empty string, or is one of the five origins of the allow-list; for every other origin
  it is called back with the error \<open>Not allowed by CORS\<close>. A request so rejected reaches
  no route: the error handler answers it with status 500 and the error's message.
\<close>

theorem cors_origin_policy:
  "(corsOptions_origin origin = Inr True \<longleftrightarrow>
      origin = None \<or> origin = Some [] \<or> (\<exists>s. origin = Some s \<and> s \<in> set allowedOrigins)) \<and>
   (corsOptions_origin origin \<noteq> Inr True \<longrightarrow>
      corsOptions_origin origin = Inl (new_Error ''Not allowed by CORS'')) \<and>
   length allowedOrigins = 5 \<and> distinct allowedOrigins \<and>
   (corsOptions_origin (origin_header rq) \<noteq> Inr True \<longrightarrow>
      invoked (handle w hs t rq) = [] \<and>
      sent (handle w hs t rq) =
        Some \<lparr>status = 500,
              content = Json (JObj ([(''status'', JStr ''error''),
                                     (''message'', JStr ''Not allowed by CORS'')] @
                (if development w
                 then [(''stack'', JStr (stack_of w (new_Error ''Not allowed by CORS'')))]
                 else [])))\<rparr>)"
proof -
  have "corsOptions_origin (origin_header rq) \<noteq> Inr True \<Longrightarrow>
      invoked (handle w hs t rq) = [] \<and>
      sent (handle w hs t rq) =
        Some \<lparr>status = 500,
              content = Json (JObj ([(''status'', JStr ''error''),
                                     (''message'', JStr ''Not allowed by CORS'')] @
                (if development w
                 then [(''stack'', JStr (stack_of w (new_Error ''Not allowed by CORS'')))]
                 else [])))\<rparr>"
    by (simp add: cors_rejected_handle fresh_def)
  moreover have "length allowedOrigins = 5 \<and> distinct allowedOrigins"
    by (simp add: allowedOrigins_def)
  ultimately show ?thesis
    using corsOptions_origin_accepts[of origin] corsOptions_origin_rejects[of origin]
    by blast
qed

theorem cors_origin_policy_witness:
  "corsOptions_origin (Some ''https://evil.example'') =
     Inl (new_Error ''Not allowed by CORS'') \<and>
   invoked (handle example_world [] 0
     ((example_request GET ''/api/orders'')\<lparr>origin_header := Some ''https://evil.example''\<rparr>)) = [] \<and>
   sent (handle example_world [] 0
     ((example_request GET ''/api/orders'')\<lparr>origin_header := Some ''https://evil.example''\<rparr>)) =
     Some \<lparr>status = 500,
           content = Json (JObj [(''status'', JStr ''error''),
                                 (''message'', JStr ''Not allowed by CORS'')])\<rparr>"
  using cors_origin_policy
    [where origin = "Some ''https://evil.example''" and w = example_world and hs = "[]"
       and t = 0
       and rq = "(example_request GET ''/api/orders'')\<lparr>origin_header := Some ''https://evil.example''\<rparr>"]
  by (simp add: corsOptions_origin_def falsy_def allowedOrigins_def example_request_def
      development_def example_world_def)
















text \<open>
  C9, the \<open>SIGTERM\<close> path: the handler closes the server, and the callback it passes
  only logs; the process is never told to exit. The two error paths close the server
  and exit with status 1 once the connections have ended.
\<close>

theorem sigterm_never_exits:
  "exited (drain (on_event SIGTERM running_server)) = None \<and>
   \<not> listening (on_event SIGTERM running_server) \<and>
   connect (on_event SIGTERM running_server) = on_event SIGTERM running_server \<and>
   srv_console (drain (on_event SIGTERM running_server)) =
     ['' SIGTERM RECEIVED. Shutting down gracefully'', '' Process terminated!''] \<and>
   exited (drain (on_event (UncaughtException ''TypeError'' ''x is not a function'')
                    running_server)) = Some 1 \<and>
   exited (drain (on_event (UnhandledRejection ''MongoNetworkError'' ''connection closed'')
                    running_server)) = Some 1 \<and>
   exited (on_event (UncaughtException ''TypeError'' ''x is not a function'') running_server)
     = None"
  by (simp add: running_server_def drain_def server_close_def srv_log_def connect_def)



end
